theory Spec2Isabelle
  imports Main
begin

section \<open>The wrapper of Bear's intercept: report/wrapper/Application.cc\<close>

text \<open>
  The file under verification decides how the wrapper was invoked, builds a
  \<open>Command\<close> (a \<open>Session\<close> and an \<open>Execution\<close>) from the environment or from the
  parsed flags, and \<open>Command::execute\<close> resolves the execution with the supervisor,
  spawns the child, reports its life cycle and maps the final status to an exit code.
  Logging (\<open>log_config\<close>, \<open>spdlog\<close>) has no influence on any returned value or on
  the reported events and is left out of the model.
\<close>

subsection \<open>Results and the values that flow through them\<close>

datatype error = runtime_error string

text \<open>\<open>rust::Result<T>\<close>: either \<open>rust::Ok\<close> of a value or \<open>rust::Err\<close> of an error.\<close>

datatype 'a result = Ok 'a | Err error

text \<open>
  Modelled from the spec: the combinators of \<open>rust::Result\<close> (libresult) are not in the
  file. They are the short-circuiting ones the specification describes: the first
  failure skips every later stage and becomes the final error.
\<close>

definition result_map :: "('a \<Rightarrow> 'b) \<Rightarrow> 'a result \<Rightarrow> 'b result" where
  "result_map f r = (case r of Ok v \<Rightarrow> Ok (f v) | Err e \<Rightarrow> Err e)"

definition and_then :: "'a result \<Rightarrow> ('a \<Rightarrow> 'b result) \<Rightarrow> 'b result" where
  "and_then r f = (case r of Ok v \<Rightarrow> f v | Err e \<Rightarrow> Err e)"

definition unwrap_or :: "'a result \<Rightarrow> 'a \<Rightarrow> 'a" where
  "unwrap_or r d = (case r of Ok v \<Rightarrow> v | Err e \<Rightarrow> d)"

definition merge :: "'a result \<Rightarrow> 'b result \<Rightarrow> ('a \<times> 'b) result" where
  "merge a b = and_then a (\<lambda>x. result_map (\<lambda>y. (x, y)) b)"

definition merge3 :: "'a result \<Rightarrow> 'b result \<Rightarrow> 'c result \<Rightarrow> ('a \<times> 'b \<times> 'c) result" where
  "merge3 a b c = and_then a (\<lambda>x. and_then b (\<lambda>y. result_map (\<lambda>z. (x, y, z)) c))"

text \<open>\<open>std::optional::value_or\<close>, and \<open>std::optional::value\<close>, which throws on an empty optional.\<close>

datatype exn = bad_optional_access

definition value_or :: "'a option \<Rightarrow> 'a \<Rightarrow> 'a" where
  "value_or x d = (case x of Some v \<Rightarrow> v | None \<Rightarrow> d)"

definition opt_value :: "'a option \<Rightarrow> exn + 'a" where
  "opt_value x = (case x of Some v \<Rightarrow> Inr v | None \<Rightarrow> Inl bad_optional_access)"

text \<open>\<open>EXIT_FAILURE\<close> of the C library.\<close>

definition EXIT_FAILURE :: int where
  "EXIT_FAILURE = 1"

subsection \<open>The data model\<close>

type_synonym path = string

text \<open>\<open>sys::env::Vars\<close> is a \<open>std::map\<close> from names to values.\<close>

type_synonym Vars = "string \<rightharpoonup> string"

record Session =
  destination :: string

record Execution =
  executable :: path
  arguments :: "string list"
  working_dir :: path
  environment :: Vars

record Command =
  session :: Session
  execution :: Execution

text \<open>
  Modelled from the spec: \<open>sys::ExitStatus\<close>, \<open>sys::Process\<close> and the events of
  \<open>wr::EventFactory\<close> are declared outside the file. A status is \<open>Exited{code}\<close> or
  \<open>Signaled{signal}\<close>; an event is \<open>Start{pid, parent_pid, execution}\<close>,
  \<open>Signal{signal_number}\<close> or \<open>Terminate{exit_code}\<close>.
\<close>

datatype ExitStatus = Exited int | Signaled int

fun is_exited :: "ExitStatus \<Rightarrow> bool" where
  "is_exited (Exited c) = True"
| "is_exited (Signaled s) = False"

fun is_signaled :: "ExitStatus \<Rightarrow> bool" where
  "is_signaled (Exited c) = False"
| "is_signaled (Signaled s) = True"

fun code :: "ExitStatus \<Rightarrow> int option" where
  "code (Exited c) = Some c"
| "code (Signaled s) = None"

fun signal :: "ExitStatus \<Rightarrow> int option" where
  "signal (Exited c) = None"
| "signal (Signaled s) = Some s"

record Process =
  pid :: int

datatype Event = Start int int Execution | Signal int | Terminate int

text \<open>
  What the run does to the outside world, in order: a call of the process builder's
  spawn with an executable, arguments and an environment; an event handed to
  \<open>InterceptorClient::report\<close>; the \<open>sys::SignalForwarder\<close> guard of a child being
  constructed and destroyed.
\<close>

datatype action =
    Spawn path "string list" Vars
  | Report Event
  | GuardInstall Process
  | GuardRelease Process

text \<open>
  How a call ends: it returns a value, it leaves by a C++ exception, or it is still
  inside the wait loop when the wait results that were observed are used up (the next
  wait never returns).
\<close>

datatype 'a outcome = Returned 'a | Thrown exn | Blocked

subsection \<open>Mode detection\<close>

text \<open>
  \<open>std::filesystem::path::filename\<close> on a POSIX path: what follows the last
  separator, empty when the path ends in one.
\<close>

definition filename :: "path \<Rightarrow> path" where
  "filename p = rev (takeWhile (\<lambda>c. c \<noteq> CHR ''/'') (rev p))"

text \<open>
  \<open>argv\<close> is the list of the strings before the terminating null pointer, \<open>argc\<close> the
  count that is passed beside it. Reading \<open>argv[0]\<close> of an empty vector dereferences
  the null pointer: the behaviour is undefined, and the model answers \<open>None\<close>.
\<close>

definition is_wrapper_call :: "int \<Rightarrow> string list \<Rightarrow> bool option" where
  "is_wrapper_call argc argv =
     (if argc > 0
      then (case argv of
              [] \<Rightarrow> None
            | cmd # _ \<Rightarrow> (let prg = filename cmd in Some (prg \<noteq> ''wrapper'')))
      else Some False)"

subsection \<open>Building the session and the execution\<close>

text \<open>
  \<open>flags::Arguments\<close> is known by its lookups only. The names of the flags and of
  the environment variable, \<open>sys::env::from\<close>, \<open>sys::path::get_cwd\<close> and the flag
  parser live in other files; they are parameters of the model. \<open>parse\<close> stands for
  \<open>Application::parse\<close>, which hands \<open>argc\<close> and \<open>argv\<close> to that parser; a parser
  that prints the usage and leaves the process does not return, and such a run builds
  no command.
\<close>

record Arguments =
  as_string :: "string \<Rightarrow> string result"
  as_string_list :: "string \<Rightarrow> string list result"

record Externals =
  KEY_DESTINATION :: string
  DESTINATION :: string
  EXECUTE :: string
  COMMAND :: string
  env_from :: "string list \<Rightarrow> Vars"
  get_cwd :: "path result"
  parse :: "int \<Rightarrow> string list \<Rightarrow> Arguments result"

definition Wrapper_make_session :: "Externals \<Rightarrow> Vars \<Rightarrow> Session result" where
  "Wrapper_make_session ext env =
     (case env (KEY_DESTINATION ext) of
        None \<Rightarrow> Err (runtime_error ''Unknown destination.'')
      | Some dest \<Rightarrow> Ok \<lparr>destination = dest\<rparr>)"

text \<open>\<open>Wrapper::from\<close> copies the strings up to the null pointer.\<close>

definition from_argv :: "string list \<Rightarrow> string list" where
  "from_argv argv = argv"

definition Wrapper_make_execution :: "Externals \<Rightarrow> string list \<Rightarrow> Vars \<Rightarrow> Execution result option" where
  "Wrapper_make_execution ext argv env =
     (case argv of
        [] \<Rightarrow> None
      | program # _ \<Rightarrow>
          (let args = from_argv argv in
           Some (result_map
                   (\<lambda>cwd. \<lparr>executable = program, arguments = args,
                            working_dir = cwd, environment = env\<rparr>)
                   (get_cwd ext))))"

definition Supervisor_make_session :: "Externals \<Rightarrow> Arguments \<Rightarrow> Session result" where
  "Supervisor_make_session ext args =
     result_map (\<lambda>dest. \<lparr>destination = dest\<rparr>) (as_string args (DESTINATION ext))"

definition Supervisor_make_execution :: "Externals \<Rightarrow> Arguments \<Rightarrow> Vars \<Rightarrow> Execution result" where
  "Supervisor_make_execution ext args env =
     (let program = result_map (\<lambda>file. file) (as_string args (EXECUTE ext));
          argl = result_map (\<lambda>xs. xs) (as_string_list args (COMMAND ext));
          cwd = get_cwd ext
      in result_map
           (\<lambda>(program, argl, cwd).
               \<lparr>executable = program, arguments = argl,
                working_dir = cwd, environment = env\<rparr>)
           (merge3 program argl cwd))"

definition from_envs :: "Externals \<Rightarrow> int \<Rightarrow> string list \<Rightarrow> string list \<Rightarrow> Command result option" where
  "from_envs ext argc argv envp =
     (let env = env_from ext envp;
          sess = Wrapper_make_session ext env
      in case Wrapper_make_execution ext argv env of
           None \<Rightarrow> None
         | Some exec \<Rightarrow>
             Some (result_map (\<lambda>(s, e). \<lparr>session = s, execution = e\<rparr>)
                     (merge sess exec)))"

definition from_args :: "Externals \<Rightarrow> Arguments \<Rightarrow> string list \<Rightarrow> Command result" where
  "from_args ext args envp =
     (let env = env_from ext envp;
          sess = Supervisor_make_session ext args;
          exec = Supervisor_make_execution ext args env
      in result_map (\<lambda>(s, e). \<lparr>session = s, execution = e\<rparr>)
           (merge sess exec))"

definition command :: "Externals \<Rightarrow> int \<Rightarrow> string list \<Rightarrow> string list \<Rightarrow> Command result option" where
  "command ext argc argv envp =
     (case is_wrapper_call argc argv of
        None \<Rightarrow> None
      | Some wrapper \<Rightarrow>
          if wrapper
          then from_envs ext argc argv envp
          else Some (and_then (parse ext argc argv) (\<lambda>args. from_args ext args envp)))"

subsection \<open>Executing the command\<close>

text \<open>
  \<open>SupervisorClient::resolve\<close>, the spawn of \<open>sys::Process::Builder\<close>, \<open>getppid\<close> and
  the child's \<open>wait\<close> are the outside world: \<open>resolve\<close> and \<open>spawn\<close> are functions
  that answer a result, \<open>ppid\<close> is this process's parent, and \<open>waits\<close> lists what the
  successive calls of \<open>child.wait(true)\<close> return. The actions are collected in the
  order in which the code performs them.
\<close>

text \<open>The event that the wait loop reports for a status; \<open>value()\<close> may throw.\<close>

definition status_event :: "ExitStatus \<Rightarrow> exn + Event" where
  "status_event exit =
     (if is_signaled exit
      then (case opt_value (signal exit) of Inl x \<Rightarrow> Inl x | Inr s \<Rightarrow> Inr (Signal s))
      else (case opt_value (code exit) of Inl x \<Rightarrow> Inl x | Inr c \<Rightarrow> Inr (Terminate c)))"

text \<open>\<open>status.on_success\<close> of the loop: report the event of a successful wait.\<close>

definition report_status :: "ExitStatus result \<Rightarrow> action list \<Rightarrow> exn + action list" where
  "report_status status tr =
     (case status of
        Err e \<Rightarrow> Inr tr
      | Ok exit \<Rightarrow>
          (case status_event exit of
             Inl x \<Rightarrow> Inl x
           | Inr event \<Rightarrow> Inr (tr @ [Report event])))"

text \<open>\<open>while (true)\<close>: one round for each result of \<open>wait\<close>.\<close>

fun wait_loop :: "ExitStatus result list \<Rightarrow> action list \<Rightarrow> ExitStatus result outcome \<times> action list" where
  "wait_loop [] tr = (Blocked, tr)"
| "wait_loop (status # rest) tr =
     (case report_status status tr of
        Inl x \<Rightarrow> (Thrown x, tr)
      | Inr tr' \<Rightarrow>
          if unwrap_or (result_map is_exited status) False
          then (Returned status, tr')
          else wait_loop rest tr')"

text \<open>
  The second \<open>and_then\<close>: the guard lives from its construction to the end of the
  lambda, so it is released when the loop returns or is left by an exception.
\<close>

definition wait_stage :: "Process \<Rightarrow> ExitStatus result list \<Rightarrow> action list \<Rightarrow> ExitStatus result outcome \<times> action list" where
  "wait_stage child waits tr =
     (case wait_loop waits (tr @ [GuardInstall child]) of
        (Returned status, tr') \<Rightarrow> (Returned status, tr' @ [GuardRelease child])
      | (Thrown x, tr') \<Rightarrow> (Thrown x, tr' @ [GuardRelease child])
      | (Blocked, tr') \<Rightarrow> (Blocked, tr'))"

text \<open>The first \<open>and_then\<close>: spawn from the resolved execution, report the start.\<close>

definition spawn_stage ::
  "(path \<Rightarrow> string list \<Rightarrow> Vars \<Rightarrow> Process result) \<Rightarrow> int \<Rightarrow> Execution \<Rightarrow> Process result \<times> action list" where
  "spawn_stage spawn ppid exe =
     (case spawn (executable exe) (arguments exe) (environment exe) of
        Err e \<Rightarrow> (Err e, [Spawn (executable exe) (arguments exe) (environment exe)])
      | Ok child \<Rightarrow>
          (Ok child, [Spawn (executable exe) (arguments exe) (environment exe),
                      Report (Start (pid child) ppid exe)]))"

definition execute ::
  "(Execution \<Rightarrow> Execution result) \<Rightarrow> (path \<Rightarrow> string list \<Rightarrow> Vars \<Rightarrow> Process result) \<Rightarrow> int \<Rightarrow>
   ExitStatus result list \<Rightarrow> Command \<Rightarrow> int result outcome \<times> action list" where
  "execute resolve spawn ppid waits cmd =
     (case resolve (execution cmd) of
        Err e \<Rightarrow> (Returned (Err e), [])
      | Ok exe \<Rightarrow>
          (case spawn_stage spawn ppid exe of
             (Err e, tr) \<Rightarrow> (Returned (Err e), tr)
           | (Ok child, tr) \<Rightarrow>
               (case wait_stage child waits tr of
                  (Returned status, tr') \<Rightarrow>
                    (Returned (result_map (\<lambda>st. value_or (code st) EXIT_FAILURE) status), tr')
                | (Thrown x, tr') \<Rightarrow> (Thrown x, tr')
                | (Blocked, tr') \<Rightarrow> (Blocked, tr'))))"

subsection \<open>Reading a run\<close>

text \<open>The events that were reported, and the wait rounds that do not end the loop.\<close>

fun reported :: "action list \<Rightarrow> Event list" where
  "reported [] = []"
| "reported (Report ev # tr) = ev # reported tr"
| "reported (a # tr) = reported tr"

fun exited :: "ExitStatus result \<Rightarrow> bool" where
  "exited (Ok st) = is_exited st"
| "exited (Err e) = False"

fun signal_events :: "ExitStatus result list \<Rightarrow> Event list" where
  "signal_events [] = []"
| "signal_events (Ok (Signaled s) # ws) = Signal s # signal_events ws"
| "signal_events (w # ws) = signal_events ws"

fun spawned :: "action list \<Rightarrow> (path \<times> string list \<times> Vars) list" where
  "spawned [] = []"
| "spawned (Spawn p a v # tr) = (p, a, v) # spawned tr"
| "spawned (a # tr) = spawned tr"

subsection \<open>A concrete run\<close>

text \<open>
  The scenario of the specification: destination \<open>/tmp/sess\<close>, the command
  \<open>echo hi\<close> run in \<open>/tmp\<close> with an empty environment. \<open>example_ext\<close> is an outside
  world in which the environment block reads as \<open>env\<close> and the parser answers \<open>args\<close>.
\<close>

definition example_execution :: Execution where
  "example_execution =
     \<lparr>executable = ''echo'', arguments = [''echo'', ''hi''],
      working_dir = ''/tmp'', environment = Map.empty\<rparr>"

definition example_command :: Command where
  "example_command = \<lparr>session = \<lparr>destination = ''/tmp/sess''\<rparr>, execution = example_execution\<rparr>"

definition example_resolve :: "Execution \<Rightarrow> Execution result" where
  "example_resolve e = Ok (e\<lparr>executable := ''/bin/echo''\<rparr>)"

definition example_spawn :: "path \<Rightarrow> string list \<Rightarrow> Vars \<Rightarrow> Process result" where
  "example_spawn p a v = Ok \<lparr>pid = 4711\<rparr>"

definition example_args :: Arguments where
  "example_args =
     \<lparr>as_string = (\<lambda>k. if k = ''--destination'' then Ok ''/tmp/sess''
                       else if k = ''--execute'' then Ok ''/bin/echo''
                       else Err (runtime_error ''missing'')),
      as_string_list = (\<lambda>k. if k = ''--'' then Ok [''echo'', ''hi'']
                            else Err (runtime_error ''missing''))\<rparr>"

definition example_ext :: "Vars \<Rightarrow> path result \<Rightarrow> Arguments \<Rightarrow> Externals" where
  "example_ext env cwd args =
     \<lparr>KEY_DESTINATION = ''INTERCEPT_REPORT_DESTINATION'',
      DESTINATION = ''--destination'', EXECUTE = ''--execute'', COMMAND = ''--'',
      env_from = (\<lambda>envp. env), get_cwd = cwd, parse = (\<lambda>argc argv. Ok args)\<rparr>"

section \<open>Properties\<close>

subsection \<open>One round of the wait loop\<close>

lemma status_event_total:
  "status_event st = Inr (case st of Exited c \<Rightarrow> Terminate c | Signaled s \<Rightarrow> Signal s)"
  by (cases st) (simp_all add: status_event_def opt_value_def)

lemma report_status_Ok:
  "report_status (Ok st) tr =
     Inr (tr @ [Report (case st of Exited c \<Rightarrow> Terminate c | Signaled s \<Rightarrow> Signal s)])"
  by (simp add: report_status_def status_event_total)

lemma report_status_Err: "report_status (Err e) tr = Inr tr"
  by (simp add: report_status_def)

lemma wait_loop_Err: "wait_loop (Err e # rest) tr = wait_loop rest tr"
  by (simp add: report_status_Err unwrap_or_def result_map_def)

lemma wait_loop_Signaled:
  "wait_loop (Ok (Signaled s) # rest) tr = wait_loop rest (tr @ [Report (Signal s)])"
  by (simp add: report_status_Ok unwrap_or_def result_map_def)

lemma wait_loop_Exited:
  "wait_loop (Ok (Exited c) # rest) tr = (Returned (Ok (Exited c)), tr @ [Report (Terminate c)])"
  by (simp add: report_status_Ok unwrap_or_def result_map_def)

declare wait_loop.simps(2) [simp del]
declare wait_loop_Err [simp] wait_loop_Signaled [simp] wait_loop_Exited [simp]

subsection \<open>The whole loop\<close>

lemma reported_append: "reported (xs @ ys) = reported xs @ reported ys"
  by (induction xs rule: reported.induct) simp_all

lemma reported_map_Report: "reported (map Report evs) = evs"
  by (induction evs) simp_all

text \<open>Rounds that do not end the loop only add the events of the signaled ones.\<close>

lemma wait_loop_prefix:
  "\<forall>w\<in>set pre. \<not> exited w \<Longrightarrow>
   wait_loop (pre @ rest) tr = wait_loop rest (tr @ map Report (signal_events pre))"
proof (induction pre arbitrary: tr)
  case Nil
  then show ?case by simp
next
  case (Cons w pre)
  show ?case
  proof (cases w)
    case (Err e)
    with Cons show ?thesis by simp
  next
    case (Ok st)
    with Cons.prems obtain s where "st = Signaled s" by (cases st) auto
    with Ok Cons show ?thesis by simp
  qed
qed

text \<open>The loop returns an exited status or does not return; it never throws.\<close>

lemma wait_loop_cases:
  "(\<exists>st tr'. wait_loop waits tr = (Returned (Ok st), tr') \<and> is_exited st)
   \<or> (\<exists>tr'. wait_loop waits tr = (Blocked, tr'))"
proof (induction waits arbitrary: tr)
  case Nil
  then show ?case by simp
next
  case (Cons w waits)
  show ?case
  proof (cases w)
    case (Err e)
    with Cons show ?thesis by simp
  next
    case (Ok st)
    then show ?thesis using Cons by (cases st) simp_all
  qed
qed

lemma spawned_append: "spawned (xs @ ys) = spawned xs @ spawned ys"
  by (induction xs rule: spawned.induct) simp_all

lemma spawned_map_Report: "spawned (map Report evs) = []"
  by (induction evs) simp_all

text \<open>The loop only adds reports to the actions.\<close>

lemma wait_loop_trace: "\<exists>evs. snd (wait_loop waits tr) = tr @ map Report evs"
proof (induction waits arbitrary: tr)
  case Nil
  have "snd (wait_loop [] tr) = tr @ map Report []" by simp
  then show ?case by blast
next
  case (Cons w waits)
  show ?case
  proof (cases w)
    case (Err e)
    with Cons show ?thesis by simp
  next
    case (Ok st)
    show ?thesis
    proof (cases st)
      case (Exited c)
      have "snd (wait_loop (w # waits) tr) = tr @ map Report [Terminate c]"
        using Ok Exited by simp
      then show ?thesis by blast
    next
      case (Signaled s)
      obtain evs where
        "snd (wait_loop waits (tr @ [Report (Signal s)])) = (tr @ [Report (Signal s)]) @ map Report evs"
        using Cons by blast
      then have "snd (wait_loop (w # waits) tr) = tr @ map Report (Signal s # evs)"
        using Ok Signaled by simp
      then show ?thesis by blast
    qed
  qed
qed

text \<open>A failed wait changes nothing: the loop goes on as if it had not happened.\<close>

lemma wait_loop_drop_failure:
  "wait_loop (pre @ Err e # rest) tr = wait_loop (pre @ rest) tr"
proof (induction pre arbitrary: tr)
  case Nil
  then show ?case by simp
next
  case (Cons w pre)
  show ?case
  proof (cases w)
    case (Err e')
    with Cons show ?thesis by simp
  next
    case (Ok st)
    with Cons show ?thesis by (cases st) simp_all
  qed
qed

subsection \<open>The stages of \<open>execute\<close>\<close>

lemma wait_stage_trace:
  "\<exists>evs g. snd (wait_stage child waits tr) = tr @ GuardInstall child # map Report evs @ g
      \<and> (g = [] \<or> g = [GuardRelease child])"
proof -
  obtain evs where e:
    "snd (wait_loop waits (tr @ [GuardInstall child])) = (tr @ [GuardInstall child]) @ map Report evs"
    using wait_loop_trace by blast
  obtain r tr' where w: "wait_loop waits (tr @ [GuardInstall child]) = (r, tr')"
    by (cases "wait_loop waits (tr @ [GuardInstall child])")
  with e have tr': "tr' = tr @ GuardInstall child # map Report evs" by simp
  show ?thesis
  proof (cases r)
    case (Returned x)
    with w tr' have "snd (wait_stage child waits tr)
        = tr @ GuardInstall child # map Report evs @ [GuardRelease child]"
      by (simp add: wait_stage_def)
    then show ?thesis by blast
  next
    case (Thrown x)
    with w tr' have "snd (wait_stage child waits tr)
        = tr @ GuardInstall child # map Report evs @ [GuardRelease child]"
      by (simp add: wait_stage_def)
    then show ?thesis by blast
  next
    case Blocked
    with w tr' have "snd (wait_stage child waits tr) = tr @ GuardInstall child # map Report evs @ []"
      by (simp add: wait_stage_def)
    then show ?thesis by blast
  qed
qed

lemma wait_stage_cases:
  "(\<exists>st tr'. wait_stage child waits tr = (Returned (Ok st), tr' @ [GuardRelease child]) \<and> is_exited st)
   \<or> (\<exists>tr'. wait_stage child waits tr = (Blocked, tr'))"
  using wait_loop_cases [of waits "tr @ [GuardInstall child]"]
  by (auto simp add: wait_stage_def)

text \<open>The run in which the child exits after the rounds \<open>pre\<close>.\<close>

lemma execute_run:
  assumes "resolve (execution cmd) = Ok exe"
    and "spawn (executable exe) (arguments exe) (environment exe) = Ok child"
    and "\<forall>w\<in>set pre. \<not> exited w"
  shows "execute resolve spawn ppid (pre @ Ok (Exited c) # rest) cmd =
           (Returned (Ok c),
            [Spawn (executable exe) (arguments exe) (environment exe),
             Report (Start (pid child) ppid exe), GuardInstall child]
            @ map Report (signal_events pre)
            @ [Report (Terminate c), GuardRelease child])"
  using assms(1,2) wait_loop_prefix [OF assms(3)]
  by (simp add: execute_def spawn_stage_def wait_stage_def result_map_def value_or_def)



subsection \<open>When an execution is built\<close>

lemma Supervisor_make_execution_Ok_iff:
  "Supervisor_make_execution ext args env = Ok exe \<longleftrightarrow>
     as_string args (EXECUTE ext) = Ok (executable exe)
     \<and> as_string_list args (COMMAND ext) = Ok (arguments exe)
     \<and> get_cwd ext = Ok (working_dir exe)
     \<and> environment exe = env"
  by (cases "as_string args (EXECUTE ext)"; cases "as_string_list args (COMMAND ext)"; cases "get_cwd ext")
    (auto simp add: Supervisor_make_execution_def merge3_def and_then_def result_map_def)

lemma Wrapper_make_execution_Ok_iff:
  "Wrapper_make_execution ext (a # rest) env = Some (Ok exe) \<longleftrightarrow>
     executable exe = a \<and> arguments exe = a # rest
     \<and> get_cwd ext = Ok (working_dir exe) \<and> environment exe = env"
  by (cases "get_cwd ext")
    (auto simp add: Wrapper_make_execution_def from_argv_def result_map_def)

section \<open>The claims\<close>




text \<open>
  C2. When resolve and spawn succeed and the child exits with code \<open>c\<close> after the wait
  rounds \<open>pre\<close>, none of which is an exit, the reported events are exactly one
  \<open>Start\<close>, then one \<open>Signal\<close> for each signaled round of \<open>pre\<close> in order, then one
  \<open>Terminate\<close>; and \<open>execute\<close> returns \<open>c\<close>.
\<close>

theorem execute_event_sequence:
  assumes "resolve (execution cmd) = Ok exe"
    and "spawn (executable exe) (arguments exe) (environment exe) = Ok child"
    and "waits = pre @ Ok (Exited c) # rest"
    and "\<forall>w\<in>set pre. \<not> exited w"
  shows "fst (execute resolve spawn ppid waits cmd) = Returned (Ok c)
       \<and> reported (snd (execute resolve spawn ppid waits cmd))
           = Start (pid child) ppid exe # signal_events pre @ [Terminate c]
       \<and> signal_events pre
           = concat (map (\<lambda>w. case w of Ok (Signaled s) \<Rightarrow> [Signal s] | _ \<Rightarrow> []) pre)"
proof -
  have "signal_events ws
      = concat (map (\<lambda>w. case w of Ok (Signaled s) \<Rightarrow> [Signal s] | _ \<Rightarrow> []) ws)" for ws
    by (induction ws rule: signal_events.induct) simp_all
  moreover have "execute resolve spawn ppid waits cmd =
           (Returned (Ok c),
            [Spawn (executable exe) (arguments exe) (environment exe),
             Report (Start (pid child) ppid exe), GuardInstall child]
            @ map Report (signal_events pre)
            @ [Report (Terminate c), GuardRelease child])"
    using execute_run [of resolve cmd exe spawn child pre ppid c rest] assms by simp
  ultimately show ?thesis
    by (simp add: reported_append reported_map_Report)
qed

theorem execute_event_sequence_witness:
  "reported (snd (execute example_resolve example_spawn 1
       [Ok (Signaled 2), Err (runtime_error ''EINTR''), Ok (Signaled 15), Ok (Exited 3)]
       example_command))
     = [Start 4711 1 (example_execution\<lparr>executable := ''/bin/echo''\<rparr>),
        Signal 2, Signal 15, Terminate 3]"
  using execute_event_sequence [where resolve = example_resolve and cmd = example_command
      and exe = "example_execution\<lparr>executable := ''/bin/echo''\<rparr>" and spawn = example_spawn
      and child = "\<lparr>pid = 4711\<rparr>"
      and waits = "[Ok (Signaled 2), Err (runtime_error ''EINTR''), Ok (Signaled 15), Ok (Exited 3)]"
      and pre = "[Ok (Signaled 2), Err (runtime_error ''EINTR''), Ok (Signaled 15)]"
      and c = 3 and rest = "[]" and ppid = 1]
  by (simp add: example_resolve_def example_command_def example_spawn_def)

text \<open>
  C3, as the specification states it: a failed wait aborts the loop and becomes the
  result of \<open>execute\<close>. The code does otherwise: after a failed wait the loop waits
  again, and the exit that follows decides the result; with nothing after the failure
  the loop is still waiting and the guard is still installed.
\<close>

theorem wait_failure_counterexample:
  "fst (execute example_resolve example_spawn 1
          [Err (runtime_error ''waitpid''), Ok (Exited 0)] example_command) = Returned (Ok 0)
   \<and> fst (execute example_resolve example_spawn 1
          [Err (runtime_error ''waitpid''), Ok (Exited 0)] example_command)
        \<noteq> Returned (Err (runtime_error ''waitpid''))
   \<and> execute example_resolve example_spawn 1 [Err (runtime_error ''waitpid'')] example_command
        = (Blocked, [Spawn ''/bin/echo'' [''echo'', ''hi''] Map.empty,
                     Report (Start 4711 1 (example_execution\<lparr>executable := ''/bin/echo''\<rparr>)),
                     GuardInstall \<lparr>pid = 4711\<rparr>])"
  by (simp add: execute_def spawn_stage_def wait_stage_def example_resolve_def example_spawn_def
      example_command_def example_execution_def result_map_def value_or_def)

text \<open>
  C3, amended. In a run that reaches the wait loop, a failed wait is not terminal: the
  run is the one in which that wait did not happen (no event, the loop waits again),
  \<open>execute\<close> never returns an error from the loop, and whenever \<open>execute\<close> comes back
  the last action is the release of the signal-forwarding guard.
\<close>

theorem wait_failure_retried:
  assumes "resolve (execution cmd) = Ok exe"
    and "spawn (executable exe) (arguments exe) (environment exe) = Ok child"
  shows "execute resolve spawn ppid (pre @ Err e # rest) cmd = execute resolve spawn ppid (pre @ rest) cmd
       \<and> fst (execute resolve spawn ppid waits cmd) \<noteq> Returned (Err e')
       \<and> (fst (execute resolve spawn ppid waits cmd) = Blocked
            \<or> (\<exists>tr. snd (execute resolve spawn ppid waits cmd) = tr @ [GuardRelease child]))"
proof -
  let ?tr = "[Spawn (executable exe) (arguments exe) (environment exe),
              Report (Start (pid child) ppid exe)]"
  have ex: "execute resolve spawn ppid ws cmd =
     (case wait_stage child ws ?tr of
        (Returned status, tr') \<Rightarrow>
           (Returned (result_map (\<lambda>st. value_or (code st) EXIT_FAILURE) status), tr')
      | (Thrown x, tr') \<Rightarrow> (Thrown x, tr')
      | (Blocked, tr') \<Rightarrow> (Blocked, tr'))" for ws
    using assms by (simp add: execute_def spawn_stage_def)
  have "wait_stage child (pre @ Err e # rest) ?tr = wait_stage child (pre @ rest) ?tr"
    by (simp add: wait_stage_def wait_loop_drop_failure)
  then have a: "execute resolve spawn ppid (pre @ Err e # rest) cmd
      = execute resolve spawn ppid (pre @ rest) cmd"
    by (simp add: ex)
  from wait_stage_cases [of child waits ?tr]
  have b: "fst (execute resolve spawn ppid waits cmd) \<noteq> Returned (Err e')
       \<and> (fst (execute resolve spawn ppid waits cmd) = Blocked
            \<or> (\<exists>tr. snd (execute resolve spawn ppid waits cmd) = tr @ [GuardRelease child]))"
  proof
    assume "\<exists>st tr'. wait_stage child waits ?tr = (Returned (Ok st), tr' @ [GuardRelease child]) \<and> is_exited st"
    then show ?thesis
      by (auto simp add: ex result_map_def)
  next
    assume "\<exists>tr'. wait_stage child waits ?tr = (Blocked, tr')"
    then show ?thesis
      by (auto simp add: ex)
  qed
  from a b show ?thesis by simp
qed

theorem wait_failure_retried_witness:
  "execute example_resolve example_spawn 1
       ([Ok (Signaled 2)] @ Err (runtime_error ''waitpid'') # [Ok (Exited 0)]) example_command
     = execute example_resolve example_spawn 1 ([Ok (Signaled 2)] @ [Ok (Exited 0)]) example_command
   \<and> (\<exists>tr. snd (execute example_resolve example_spawn 1
                  [Err (runtime_error ''waitpid''), Ok (Exited 0)] example_command)
              = tr @ [GuardRelease \<lparr>pid = 4711\<rparr>])"
  using wait_failure_retried [where resolve = example_resolve and cmd = example_command
      and exe = "example_execution\<lparr>executable := ''/bin/echo''\<rparr>" and spawn = example_spawn
      and child = "\<lparr>pid = 4711\<rparr>" and ppid = 1 and pre = "[Ok (Signaled 2)]"
      and e = "runtime_error ''waitpid''" and rest = "[Ok (Exited 0)]"
      and waits = "[Err (runtime_error ''waitpid''), Ok (Exited 0)]"
      and e' = "runtime_error ''waitpid''"]
    execute_run [where resolve = example_resolve and cmd = example_command
      and exe = "example_execution\<lparr>executable := ''/bin/echo''\<rparr>" and spawn = example_spawn
      and child = "\<lparr>pid = 4711\<rparr>" and ppid = 1 and pre = "[Err (runtime_error ''waitpid'')]"
      and c = 0 and rest = "[]"]
  by (simp add: example_resolve_def example_command_def example_spawn_def)

text \<open>
  C4. When resolve fails, \<open>execute\<close> returns that error and nothing at all is done: no
  spawn, no event. When the spawn fails, \<open>execute\<close> returns that error, and the only
  action is the failed spawn: no event is reported.
\<close>

theorem resolve_or_spawn_failure:
  "(resolve (execution cmd) = Err e \<longrightarrow>
       execute resolve spawn ppid waits cmd = (Returned (Err e), []))
   \<and> (resolve (execution cmd) = Ok exe
        \<and> spawn (executable exe) (arguments exe) (environment exe) = Err e \<longrightarrow>
       fst (execute resolve spawn ppid waits cmd) = Returned (Err e)
       \<and> reported (snd (execute resolve spawn ppid waits cmd)) = []
       \<and> snd (execute resolve spawn ppid waits cmd)
           = [Spawn (executable exe) (arguments exe) (environment exe)])"
  by (simp add: execute_def spawn_stage_def)

theorem resolve_or_spawn_failure_witness:
  "execute (\<lambda>e. Err (runtime_error ''denied'')) example_spawn 1 [Ok (Exited 0)] example_command
     = (Returned (Err (runtime_error ''denied'')), [])
   \<and> execute example_resolve (\<lambda>p a v. Err (runtime_error ''ENOENT'')) 1 [Ok (Exited 0)] example_command
     = (Returned (Err (runtime_error ''ENOENT'')), [Spawn ''/bin/echo'' [''echo'', ''hi''] Map.empty])"
  using resolve_or_spawn_failure [where resolve = "\<lambda>e. Err (runtime_error ''denied'')"
      and cmd = example_command and e = "runtime_error ''denied''" and spawn = example_spawn
      and ppid = 1 and waits = "[Ok (Exited 0)]" and exe = example_execution]
    resolve_or_spawn_failure [where resolve = example_resolve
      and cmd = example_command and e = "runtime_error ''ENOENT''"
      and spawn = "\<lambda>p a v. Err (runtime_error ''ENOENT'')"
      and ppid = 1 and waits = "[Ok (Exited 0)]"
      and exe = "example_execution\<lparr>executable := ''/bin/echo''\<rparr>"]
  by (simp add: example_resolve_def example_command_def example_execution_def prod_eq_iff)

text \<open>
  C7. When resolve answers an execution, the one spawn of the run is made from that
  execution's executable, arguments and environment, whatever the original was, and
  if it succeeds the first reported event is \<open>Start\<close> with the child's pid, this
  process's parent pid and the resolved execution.
\<close>

theorem spawn_from_resolved:
  assumes "resolve (execution cmd) = Ok exe"
  shows "spawned (snd (execute resolve spawn ppid waits cmd))
           = [(executable exe, arguments exe, environment exe)]
       \<and> (spawn (executable exe) (arguments exe) (environment exe) = Ok child \<longrightarrow>
            (\<exists>evs. reported (snd (execute resolve spawn ppid waits cmd))
                      = Start (pid child) ppid exe # evs))"
proof (cases "spawn (executable exe) (arguments exe) (environment exe)")
  case (Err e)
  with assms show ?thesis by (simp add: execute_def spawn_stage_def)
next
  case (Ok c)
  let ?tr = "[Spawn (executable exe) (arguments exe) (environment exe),
              Report (Start (pid c) ppid exe)]"
  obtain evs g where t: "snd (wait_stage c waits ?tr) = ?tr @ GuardInstall c # map Report evs @ g"
    and g: "g = [] \<or> g = [GuardRelease c]"
    using wait_stage_trace [of c waits ?tr] by blast
  have "snd (execute resolve spawn ppid waits cmd) = snd (wait_stage c waits ?tr)"
    using assms Ok
    by (simp add: execute_def spawn_stage_def split: prod.splits outcome.splits)
  with t have s: "snd (execute resolve spawn ppid waits cmd) = ?tr @ GuardInstall c # map Report evs @ g"
    by simp
  from g have "spawned g = []" and "reported g = []" by auto
  then have "spawned (snd (execute resolve spawn ppid waits cmd))
           = [(executable exe, arguments exe, environment exe)]"
    and "reported (snd (execute resolve spawn ppid waits cmd)) = Start (pid c) ppid exe # evs"
    unfolding s by (simp_all add: spawned_append spawned_map_Report reported_append reported_map_Report)
  with Ok show ?thesis by simp
qed

theorem spawn_from_resolved_witness:
  "spawned (snd (execute example_resolve example_spawn 1 [Ok (Exited 0)] example_command))
     = [(''/bin/echo'', [''echo'', ''hi''], Map.empty)]
   \<and> (\<exists>evs. reported (snd (execute example_resolve example_spawn 1 [Ok (Exited 0)] example_command))
         = Start 4711 1 (example_execution\<lparr>executable := ''/bin/echo''\<rparr>) # evs)"
  using spawn_from_resolved [where resolve = example_resolve and cmd = example_command
      and exe = "example_execution\<lparr>executable := ''/bin/echo''\<rparr>" and spawn = example_spawn
      and ppid = 1 and waits = "[Ok (Exited 0)]" and child = "\<lparr>pid = 4711\<rparr>"]
  by (simp add: example_resolve_def example_command_def example_execution_def example_spawn_def)

text \<open>
  C5. For an invocation with at least one argument: when the file name of \<open>argv[0]\<close>
  is \<open>wrapper\<close>, \<open>command\<close> parses the flags and builds the command from them (the
  supervisor call); for any other file name it builds the command from the environment
  (the wrapper call).
\<close>

theorem mode_dispatch:
  assumes "argc > 0"
  shows "(filename a = ''wrapper'' \<longrightarrow>
            is_wrapper_call argc (a # rest) = Some False
            \<and> command ext argc (a # rest) envp
                = Some (and_then (parse ext argc (a # rest)) (\<lambda>args. from_args ext args envp)))
       \<and> (filename a \<noteq> ''wrapper'' \<longrightarrow>
            is_wrapper_call argc (a # rest) = Some True
            \<and> command ext argc (a # rest) envp = from_envs ext argc (a # rest) envp)"
  using assms by (simp add: command_def is_wrapper_call_def)

theorem mode_dispatch_witness:
  "command (example_ext Map.empty (Ok ''/tmp'') example_args) 4
       [''/usr/bin/wrapper'', ''--destination'', ''/tmp/sess'', ''--execute''] []
     = Some (and_then (Ok example_args)
               (\<lambda>args. from_args (example_ext Map.empty (Ok ''/tmp'') example_args) args []))
   \<and> command (example_ext Map.empty (Ok ''/tmp'') example_args) 2 [''/usr/lib/bear/cc'', ''-c''] []
     = from_envs (example_ext Map.empty (Ok ''/tmp'') example_args) 2 [''/usr/lib/bear/cc'', ''-c''] []"
  using mode_dispatch [where argc = 4 and a = "''/usr/bin/wrapper''"
      and rest = "[''--destination'', ''/tmp/sess'', ''--execute'']"
      and ext = "example_ext Map.empty (Ok ''/tmp'') example_args" and envp = "[]"]
    mode_dispatch [where argc = 2 and a = "''/usr/lib/bear/cc''" and rest = "[''-c'']"
      and ext = "example_ext Map.empty (Ok ''/tmp'') example_args" and envp = "[]"]
  by (simp add: filename_def example_ext_def)

text \<open>
  C10. With \<open>argc = 0\<close> mode detection answers false, and \<open>command\<close> takes the
  flag-parsing path.
\<close>

theorem empty_argv_is_supervisor_call:
  "is_wrapper_call 0 argv = Some False
   \<and> command ext 0 argv envp
       = Some (and_then (parse ext 0 argv) (\<lambda>args. from_args ext args envp))"
  by (simp add: command_def is_wrapper_call_def)

theorem empty_argv_is_supervisor_call_witness:
  "is_wrapper_call 0 [] = Some False
   \<and> command (example_ext Map.empty (Ok ''/tmp'') example_args) 0 [] []
     = Some (from_args (example_ext Map.empty (Ok ''/tmp'') example_args) example_args [])"
  using empty_argv_is_supervisor_call [where argv = "[]" and envp = "[]"
      and ext = "example_ext Map.empty (Ok ''/tmp'') example_args"]
  by (simp add: example_ext_def and_then_def)

text \<open>
  C6. When the environment has no binding for the destination variable,
  \<open>Wrapper::make_session\<close> fails with the error \<open>Unknown destination.\<close>, and so does
  \<open>from_envs\<close>, whatever the working directory lookup answers: no command is built, so
  there is nothing to execute and no process is spawned.
\<close>

theorem unknown_destination:
  assumes "env_from ext envp (KEY_DESTINATION ext) = None"
  shows "Wrapper_make_session ext (env_from ext envp) = Err (runtime_error ''Unknown destination.'')
       \<and> from_envs ext argc (a # rest) envp = Some (Err (runtime_error ''Unknown destination.''))
       \<and> from_envs ext argc argv envp \<noteq> Some (Ok cmd)"
proof -
  have s: "Wrapper_make_session ext (env_from ext envp) = Err (runtime_error ''Unknown destination.'')"
    using assms by (simp add: Wrapper_make_session_def)
  have "from_envs ext argc argv envp = None
      \<or> from_envs ext argc argv envp = Some (Err (runtime_error ''Unknown destination.''))" for argv
    using s by (cases argv)
      (simp_all add: from_envs_def Wrapper_make_execution_def merge_def and_then_def result_map_def)
  from this [of "a # rest"] this [of argv] s show ?thesis
    by (auto simp add: from_envs_def Wrapper_make_execution_def)
qed

theorem unknown_destination_witness:
  "from_envs (example_ext Map.empty (Ok ''/tmp'') example_args) 2 [''/usr/lib/bear/cc'', ''-c''] []
     = Some (Err (runtime_error ''Unknown destination.''))"
  using unknown_destination [where ext = "example_ext Map.empty (Ok ''/tmp'') example_args"
      and envp = "[]" and argc = 2 and a = "''/usr/lib/bear/cc''" and rest = "[''-c'']"
      and argv = "[]"]
  by (simp add: example_ext_def)

text \<open>
  C8. On the supervisor-call path an execution is built exactly when the three lookups
  (program, arguments, working directory) all succeed, and it is made of their values;
  if one of them fails, \<open>make_execution\<close> and \<open>from_args\<close> fail. On the wrapper-call
  path the program and the arguments are read from \<open>argv\<close>, which cannot fail, and an
  execution is built exactly when the working directory lookup succeeds; if it fails,
  \<open>make_execution\<close> and \<open>from_envs\<close> fail. A failed construction yields no command, so
  no process is spawned.
\<close>

theorem execution_needs_all_lookups:
  "(Supervisor_make_execution ext args env = Ok exe \<longleftrightarrow>
      as_string args (EXECUTE ext) = Ok (executable exe)
      \<and> as_string_list args (COMMAND ext) = Ok (arguments exe)
      \<and> get_cwd ext = Ok (working_dir exe)
      \<and> environment exe = env)
   \<and> (Wrapper_make_execution ext (a # rest) env = Some (Ok exe) \<longleftrightarrow>
      executable exe = a \<and> arguments exe = a # rest
      \<and> get_cwd ext = Ok (working_dir exe) \<and> environment exe = env)
   \<and> ((\<exists>e. as_string args (EXECUTE ext) = Err e) \<or> (\<exists>e. as_string_list args (COMMAND ext) = Err e)
        \<or> (\<exists>e. get_cwd ext = Err e) \<longrightarrow>
      (\<exists>e. Supervisor_make_execution ext args env = Err e) \<and> (\<exists>e. from_args ext args envp = Err e))
   \<and> ((\<exists>e. get_cwd ext = Err e) \<longrightarrow>
      (\<exists>e. Wrapper_make_execution ext (a # rest) env = Some (Err e))
      \<and> (\<exists>e. from_envs ext argc (a # rest) envp = Some (Err e)))"
proof -
  have a3: "(\<exists>e. Supervisor_make_execution ext args env' = Err e)"
    if "(\<exists>e. as_string args (EXECUTE ext) = Err e) \<or> (\<exists>e. as_string_list args (COMMAND ext) = Err e)
        \<or> (\<exists>e. get_cwd ext = Err e)" for env'
    using that
    by (auto simp add: Supervisor_make_execution_def merge3_def and_then_def result_map_def
        split: result.splits)
  have b3: "\<exists>e. from_args ext args envp = Err e" if "\<exists>e. Supervisor_make_execution ext args (env_from ext envp) = Err e"
    using that by (cases "Supervisor_make_session ext args")
      (auto simp add: from_args_def merge_def and_then_def result_map_def)
  have a4: "(\<exists>e. Wrapper_make_execution ext (a # rest) env' = Some (Err e))"
    if "\<exists>e. get_cwd ext = Err e" for env'
    using that by (auto simp add: Wrapper_make_execution_def result_map_def)
  have b4: "\<exists>e. from_envs ext argc (a # rest) envp = Some (Err e)"
    if "\<exists>e. Wrapper_make_execution ext (a # rest) (env_from ext envp) = Some (Err e)"
    using that by (cases "Wrapper_make_session ext (env_from ext envp)")
      (auto simp add: from_envs_def merge_def and_then_def result_map_def)
  show ?thesis
    using Supervisor_make_execution_Ok_iff [of ext args env exe]
      Wrapper_make_execution_Ok_iff [of ext a rest env exe] a3 b3 a4 b4
    by blast
qed

theorem execution_needs_all_lookups_witness:
  "Supervisor_make_execution (example_ext Map.empty (Ok ''/tmp'') example_args) example_args Map.empty
     = Ok (example_execution\<lparr>executable := ''/bin/echo''\<rparr>)
   \<and> (\<exists>e. from_args (example_ext Map.empty (Err (runtime_error ''getcwd'')) example_args)
             example_args [] = Err e)
   \<and> (\<exists>e. from_envs (example_ext Map.empty (Err (runtime_error ''getcwd'')) example_args) 1
             [''cc''] [] = Some (Err e))"
  using execution_needs_all_lookups [where ext = "example_ext Map.empty (Ok ''/tmp'') example_args"
      and args = example_args and env = Map.empty
      and exe = "example_execution\<lparr>executable := ''/bin/echo''\<rparr>"
      and a = "''cc''" and rest = "[]" and envp = "[]" and argc = 1]
    execution_needs_all_lookups [where
      ext = "example_ext Map.empty (Err (runtime_error ''getcwd'')) example_args"
      and args = example_args and env = Map.empty and exe = example_execution
      and a = "''cc''" and rest = "[]" and envp = "[]" and argc = 1]
  by (simp add: example_ext_def example_args_def example_execution_def)

text \<open>
  C9, as the specification states it: the destination of the session of a command that
  exists is never empty. The code does not check the value: an environment that binds
  the destination variable to the empty string yields a command with an empty
  destination.
\<close>

theorem empty_destination_counterexample:
  "from_envs (example_ext [''INTERCEPT_REPORT_DESTINATION'' \<mapsto> ''''] (Ok ''/tmp'') example_args) 2
       [''/usr/lib/bear/cc'', ''-c''] [''INTERCEPT_REPORT_DESTINATION='']
     = Some (Ok \<lparr>session = \<lparr>destination = ''''\<rparr>,
                  execution = \<lparr>executable = ''/usr/lib/bear/cc'',
                               arguments = [''/usr/lib/bear/cc'', ''-c''],
                               working_dir = ''/tmp'',
                               environment = [''INTERCEPT_REPORT_DESTINATION'' \<mapsto> '''']\<rparr>\<rparr>)"
  by (simp add: from_envs_def example_ext_def Wrapper_make_session_def Wrapper_make_execution_def
      from_argv_def merge_def and_then_def result_map_def)

text \<open>
  C9, amended. The destination of the session of a command that exists is the value
  bound to the destination variable in the environment (wrapper call), or the value of
  the destination flag (supervisor call): it is non-empty exactly when that value is.
\<close>

theorem destination_is_configured_value:
  "(from_envs ext argc argv envp = Some (Ok cmd) \<longrightarrow>
      env_from ext envp (KEY_DESTINATION ext) = Some (destination (session cmd)))
   \<and> (from_args ext args envp = Ok cmd \<longrightarrow>
      as_string args (DESTINATION ext) = Ok (destination (session cmd)))"
proof -
  have "env_from ext envp (KEY_DESTINATION ext) = Some (destination (session cmd))"
    if "from_envs ext argc argv envp = Some (Ok cmd)"
    using that
    by (cases argv; cases "env_from ext envp (KEY_DESTINATION ext)"; cases "get_cwd ext")
      (auto simp add: from_envs_def Wrapper_make_session_def Wrapper_make_execution_def
        merge_def and_then_def result_map_def)
  moreover have "as_string args (DESTINATION ext) = Ok (destination (session cmd))"
    if "from_args ext args envp = Ok cmd"
    using that
    by (cases "as_string args (DESTINATION ext)";
        cases "Supervisor_make_execution ext args (env_from ext envp)")
      (auto simp add: from_args_def Supervisor_make_session_def merge_def and_then_def result_map_def)
  ultimately show ?thesis by blast
qed

theorem destination_is_configured_value_witness:
  "env_from (example_ext [''INTERCEPT_REPORT_DESTINATION'' \<mapsto> ''/tmp/sess''] (Ok ''/tmp'') example_args) []
       (KEY_DESTINATION (example_ext [''INTERCEPT_REPORT_DESTINATION'' \<mapsto> ''/tmp/sess''] (Ok ''/tmp'') example_args))
     = Some ''/tmp/sess''
   \<and> as_string example_args (DESTINATION (example_ext Map.empty (Ok ''/tmp'') example_args))
     = Ok ''/tmp/sess''"
  using destination_is_configured_value [where
      ext = "example_ext [''INTERCEPT_REPORT_DESTINATION'' \<mapsto> ''/tmp/sess''] (Ok ''/tmp'') example_args"
      and argc = 1 and argv = "[''cc'']" and envp = "[]" and args = example_args
      and cmd = "\<lparr>session = \<lparr>destination = ''/tmp/sess''\<rparr>,
                 execution = \<lparr>executable = ''cc'', arguments = [''cc''], working_dir = ''/tmp'',
                              environment = [''INTERCEPT_REPORT_DESTINATION'' \<mapsto> ''/tmp/sess'']\<rparr>\<rparr>"]
    destination_is_configured_value [where ext = "example_ext Map.empty (Ok ''/tmp'') example_args"
      and args = example_args and envp = "[]" and argc = 0 and argv = "[]"
      and cmd = "\<lparr>session = \<lparr>destination = ''/tmp/sess''\<rparr>,
                 execution = example_execution\<lparr>executable := ''/bin/echo''\<rparr>\<rparr>"]
  by (simp add: from_envs_def from_args_def example_ext_def example_args_def example_execution_def
      Wrapper_make_session_def Wrapper_make_execution_def from_argv_def
      Supervisor_make_session_def Supervisor_make_execution_def merge_def merge3_def and_then_def
      result_map_def)

end
